theory Spec2Isabelle
  imports Complex_Main "HOL-Library.Log_Nat"
begin

section \<open>JavaScript numbers\<close>

text \<open>
  The component \<^verbatim>\<open>src/App.tsx\<close> computes with JavaScript numbers, that is with
  IEEE 754 binary64 values. A number is modelled by its value: not-a-number, one of the two
  infinities, or a finite real (a dyadic rational). Every arithmetic operation rounds its
  exact result to the nearest binary64 value (ties to even), overflowing to an infinity.

  The two zeros \<open>+0\<close> and \<open>-0\<close> are one value \<open>Fin 0\<close>. The program cannot tell them apart:
  both are falsy under \<^verbatim>\<open>||\<close>, both compare equal to \<open>0\<close>, both print as \<^verbatim>\<open>"0"\<close>, and
  the only divisors of the program are the literal \<open>2\<close> and a product of positive numbers.
\<close>

datatype jsnum = NaN | PosInf | NegInf | Fin real

text \<open>Round a non-negative real to the nearest integer, ties to the even one.\<close>

definition round_half_even :: "real \<Rightarrow> int" where
  "round_half_even q =
     (let f = \<lfloor>q\<rfloor>; d = q - of_int f
      in if d < 1 / 2 then f
         else if 1 / 2 < d then f + 1
         else if even f then f else f + 1)"

text \<open>
  \<open>\<lfloor>log\<^sub>2 a\<rfloor>\<close> for a positive real \<open>a\<close>, from the bit length of an integer: of
  \<open>\<lfloor>a\<rfloor>\<close> when \<open>1 \<le> a\<close>, and of \<open>\<lceil>1 / a\<rceil> - 1\<close> otherwise
  (for an integer \<open>n \<ge> 1\<close> the bit length of \<open>n - 1\<close> is \<open>\<lceil>log\<^sub>2 n\<rceil>\<close>).
\<close>

definition floor_log2 :: "real \<Rightarrow> int" where
  "floor_log2 a =
     (if 1 \<le> a then bitlen \<lfloor>a\<rfloor> - 1 else - bitlen (\<lceil>1 / a\<rceil> - 1))"

text \<open>
  The exponent of the unit in the last place of a positive real \<open>a\<close> in binary64:
  \<open>\<lfloor>log\<^sub>2 a\<rfloor> - 52\<close> for a normal number, \<open>-1074\<close> in the subnormal range.
\<close>

definition ulp_exponent :: "real \<Rightarrow> int" where
  "ulp_exponent a = max (floor_log2 a - 52) (- 1074)"

definition round_magnitude :: "real \<Rightarrow> real" where
  "round_magnitude a =
     (let e = ulp_exponent a
      in of_int (round_half_even (a / 2 powi e)) * 2 powi e)"

text \<open>The Number value for a real \<open>x\<close>: \<open>x\<close> rounded to binary64.\<close>

definition to_double :: "real \<Rightarrow> jsnum" where
  "to_double x =
     (if x = 0 then Fin 0
      else let v = round_magnitude \<bar>x\<bar>
           in if 2 ^ 1024 \<le> v then (if x < 0 then NegInf else PosInf)
              else Fin (if x < 0 then - v else v))"

fun js_neg :: "jsnum \<Rightarrow> jsnum" where
  "js_neg NaN = NaN"
| "js_neg PosInf = NegInf"
| "js_neg NegInf = PosInf"
| "js_neg (Fin x) = Fin (- x)"

text \<open>The sign of a number that is not \<open>NaN\<close>: \<open>-1\<close>, \<open>0\<close> or \<open>1\<close>.\<close>

fun js_sgn :: "jsnum \<Rightarrow> int" where
  "js_sgn NaN = 0"
| "js_sgn PosInf = 1"
| "js_sgn NegInf = - 1"
| "js_sgn (Fin x) = (if x < 0 then - 1 else if x = 0 then 0 else 1)"

definition signed_inf :: "int \<Rightarrow> jsnum" where
  "signed_inf s = (if s < 0 then NegInf else PosInf)"

text \<open>\<^verbatim>\<open>a * b\<close>: an infinity times zero is \<open>NaN\<close>.\<close>

fun js_mul :: "jsnum \<Rightarrow> jsnum \<Rightarrow> jsnum" where
  "js_mul NaN b = NaN"
| "js_mul a NaN = NaN"
| "js_mul (Fin x) (Fin y) = to_double (x * y)"
| "js_mul a b =
     (if js_sgn a * js_sgn b = 0 then NaN else signed_inf (js_sgn a * js_sgn b))"

text \<open>
  \<^verbatim>\<open>a / b\<close>: an infinity over an infinity and zero over zero are \<open>NaN\<close>; a finite number
  over an infinity is zero; a non-zero number over zero is an infinity (the zero divisor
  is read as \<open>+0\<close>).
\<close>

fun js_div :: "jsnum \<Rightarrow> jsnum \<Rightarrow> jsnum" where
  "js_div NaN b = NaN"
| "js_div a NaN = NaN"
| "js_div (Fin x) (Fin y) =
     (if y = 0 then (if x = 0 then NaN else signed_inf (js_sgn (Fin x)))
      else to_double (x / y))"
| "js_div (Fin x) b = Fin 0"
| "js_div a (Fin y) = signed_inf (js_sgn a * (if y < 0 then - 1 else 1))"
| "js_div a b = NaN"

text \<open>\<^verbatim>\<open>a - b\<close>: the difference of two equal infinities is \<open>NaN\<close>.\<close>

fun js_sub :: "jsnum \<Rightarrow> jsnum \<Rightarrow> jsnum" where
  "js_sub NaN b = NaN"
| "js_sub a NaN = NaN"
| "js_sub (Fin x) (Fin y) = to_double (x - y)"
| "js_sub (Fin x) b = js_neg b"
| "js_sub a (Fin y) = a"
| "js_sub a b = (if a = b then NaN else a)"

text \<open>\<^verbatim>\<open>a < b\<close> and \<^verbatim>\<open>a <= b\<close>: false as soon as one side is \<open>NaN\<close>.\<close>

fun js_lt :: "jsnum \<Rightarrow> jsnum \<Rightarrow> bool" where
  "js_lt NaN b = False"
| "js_lt a NaN = False"
| "js_lt (Fin x) (Fin y) = (x < y)"
| "js_lt a b = (a \<noteq> b \<and> (a = NegInf \<or> b = PosInf))"

fun js_le :: "jsnum \<Rightarrow> jsnum \<Rightarrow> bool" where
  "js_le NaN b = False"
| "js_le a NaN = False"
| "js_le (Fin x) (Fin y) = (x \<le> y)"
| "js_le a b = (a = NegInf \<or> b = PosInf)"

text \<open>
  \<^verbatim>\<open>Math.floor\<close> and \<^verbatim>\<open>Math.ceil\<close>: the floor and the ceiling of a binary64 value are
  binary64 values, so nothing is rounded.
\<close>

fun Math_floor :: "jsnum \<Rightarrow> jsnum" where
  "Math_floor (Fin x) = Fin (of_int \<lfloor>x\<rfloor>)"
| "Math_floor a = a"

fun Math_ceil :: "jsnum \<Rightarrow> jsnum" where
  "Math_ceil (Fin x) = Fin (of_int \<lceil>x\<rceil>)"
| "Math_ceil a = a"

fun isNaN :: "jsnum \<Rightarrow> bool" where
  "isNaN NaN = True"
| "isNaN a = False"

fun isFinite :: "jsnum \<Rightarrow> bool" where
  "isFinite (Fin x) = True"
| "isFinite a = False"

text \<open>\<^verbatim>\<open>a || b\<close> on numbers: \<open>NaN\<close> and zero are falsy.\<close>

fun truthy :: "jsnum \<Rightarrow> bool" where
  "truthy NaN = False"
| "truthy (Fin x) = (x \<noteq> 0)"
| "truthy a = True"

definition js_or :: "jsnum \<Rightarrow> jsnum \<Rightarrow> jsnum" where
  "js_or a b = (if truthy a then a else b)"


section \<open>Numbers and strings\<close>

text \<open>
  A JavaScript string is a sequence of UTF-16 code units; the model has the strings whose
  code units are below 256, one \<^typ>\<open>char\<close> each. The text of a numeric input field
  is of this kind.
\<close>

definition is_whitespace :: "char \<Rightarrow> bool" where
  "is_whitespace c \<longleftrightarrow>
     c \<in> set [CHR 0x09, CHR 0x0A, CHR 0x0B, CHR 0x0C, CHR 0x0D, CHR 0x20, CHR 0xA0]"

definition is_digit :: "char \<Rightarrow> bool" where
  "is_digit c \<longleftrightarrow> c \<in> set ''0123456789''"

definition digit_value :: "char \<Rightarrow> nat" where
  "digit_value c = of_char c - 48"

definition decimal_value :: "string \<Rightarrow> nat" where
  "decimal_value ds = foldl (\<lambda>a c. 10 * a + digit_value c) 0 ds"

text \<open>
  The value of an optional \<^verbatim>\<open>ExponentPart\<close> at the head of \<open>r\<close>: an \<^verbatim>\<open>e\<close> or \<^verbatim>\<open>E\<close>, an
  optional sign, and at least one digit. Anything else is no exponent part, and counts 0.
\<close>

definition exponent_part :: "string \<Rightarrow> int" where
  "exponent_part r =
     (case r of
        [] \<Rightarrow> 0
      | c # r' \<Rightarrow>
          if c = CHR ''e'' \<or> c = CHR ''E'' then
            (case r' of
               [] \<Rightarrow> 0
             | s # d \<Rightarrow>
                 if s = CHR ''+'' then int (decimal_value (takeWhile is_digit d))
                 else if s = CHR ''-'' then - int (decimal_value (takeWhile is_digit d))
                 else int (decimal_value (takeWhile is_digit r')))
          else 0)"

text \<open>
  The longest prefix of \<open>u\<close> that is a \<^verbatim>\<open>StrUnsignedDecimalLiteral\<close>
  (\<^verbatim>\<open>Infinity\<close>, or digits with an optional fraction and exponent, or a fraction that
  starts with the point), as a number; \<open>NaN\<close> when no prefix is one. The mathematical value
  of the digits is rounded to binary64 (the engines round the exact value, also where the
  language specification leaves them a choice beyond twenty significant digits).
\<close>

definition unsigned_literal :: "string \<Rightarrow> jsnum" where
  "unsigned_literal u =
     (if take 8 u = ''Infinity'' then PosInf
      else
        let ip = takeWhile is_digit u;
            r = dropWhile is_digit u;
            fp = (case r of [] \<Rightarrow> [] | c # r' \<Rightarrow>
                    if c = CHR ''.'' then takeWhile is_digit r' else []);
            r2 = (case r of [] \<Rightarrow> [] | c # r' \<Rightarrow>
                    if c = CHR ''.'' then dropWhile is_digit r' else r)
        in if ip = [] \<and> fp = [] then NaN
           else to_double (of_nat (decimal_value (ip @ fp))
                  * 10 powi (exponent_part r2 - int (length fp))))"

text \<open>\<^verbatim>\<open>parseFloat(s)\<close>: leading white space is skipped, then an optional sign.\<close>

definition parseFloat :: "string \<Rightarrow> jsnum" where
  "parseFloat s =
     (case dropWhile is_whitespace s of
        [] \<Rightarrow> NaN
      | c # u \<Rightarrow>
          if c = CHR ''-'' then js_neg (unsigned_literal u)
          else if c = CHR ''+'' then unsigned_literal u
          else unsigned_literal (c # u))"

text \<open>The decimal digits of a natural number, most significant first.\<close>

fun decimal_digits :: "nat \<Rightarrow> string" where
  "decimal_digits n =
     (if n < 10 then [''0123456789'' ! n]
      else decimal_digits (n div 10) @ [''0123456789'' ! (n mod 10)])"

declare decimal_digits.simps [simp del]

text \<open>\<open>\<lfloor>log\<^sub>1\<^sub>0 a\<rfloor>\<close> for a positive real \<open>a\<close>, from the number of digits of an integer.\<close>

definition floor_log10 :: "real \<Rightarrow> int" where
  "floor_log10 a =
     (if 1 \<le> a then int (floorlog 10 (nat \<lfloor>a\<rfloor>)) - 1
      else - int (floorlog 10 (nat (\<lceil>1 / a\<rceil> - 1))))"

text \<open>
  \<^verbatim>\<open>Number::toString\<close> writes a positive finite \<open>x\<close> with the integers \<open>n\<close>, \<open>k\<close>, \<open>s\<close> such
  that \<open>10 ^ (k - 1) \<le> s < 10 ^ k\<close>, the number \<open>s * 10 powi (n - k)\<close> rounds to \<open>x\<close>, and
  \<open>k\<close> is as small as possible; among several \<open>s\<close> the one closest to \<open>x\<close>, and the even one
  of two equally close.

  \<open>digit_candidates x k\<close> lists the pairs \<open>(s, n)\<close> that fit for a given \<open>k\<close>. Rounding is
  monotone, so for each \<open>n\<close> only the two integers next to \<open>x / 10 powi (n - k)\<close> are tried,
  and \<open>n\<close> is \<open>\<lfloor>log\<^sub>1\<^sub>0 x\<rfloor> + 1\<close> or one more (when a power of ten above \<open>x\<close> rounds to \<open>x\<close>).
\<close>

definition digit_candidates :: "real \<Rightarrow> nat \<Rightarrow> (nat \<times> int) list" where
  "digit_candidates x k =
     [(s, n).
        n \<leftarrow> [floor_log10 x + 1, floor_log10 x + 2],
        s \<leftarrow> [nat \<lfloor>x / 10 powi (n - int k)\<rfloor>, nat \<lfloor>x / 10 powi (n - int k)\<rfloor> + 1],
        10 ^ (k - 1) \<le> s \<and> s < 10 ^ k
          \<and> to_double (of_nat s * 10 powi (n - int k)) = Fin x]"

definition closer :: "real \<Rightarrow> nat \<Rightarrow> nat \<times> int \<Rightarrow> nat \<times> int \<Rightarrow> nat \<times> int" where
  "closer x k c b =
     (let dc = \<bar>of_nat (fst c) * 10 powi (snd c - int k) - x\<bar>;
          db = \<bar>of_nat (fst b) * 10 powi (snd b - int k) - x\<bar>
      in if dc < db \<or> (dc = db \<and> even (fst c) \<and> odd (fst b)) then c else b)"

text \<open>
  Seventeen significant digits tell any two binary64 values apart, so the search ends by
  \<open>k = 17\<close>; the last branch is never reached on a binary64 value \<open>x\<close>.
\<close>

definition shortest_digits :: "real \<Rightarrow> nat \<times> nat \<times> int" where
  "shortest_digits x =
     (case find (\<lambda>k. digit_candidates x k \<noteq> [])
             [1, 2, 3, 4, 5, 6, 7, 8, 9, 10, 11, 12, 13, 14, 15, 16, 17] of
        Some k \<Rightarrow>
          (case foldr (closer x k) (butlast (digit_candidates x k))
                  (last (digit_candidates x k)) of
             (s, n) \<Rightarrow> (s, k, n))
      | None \<Rightarrow> (nat \<lfloor>x / 10 powi (floor_log10 x + 1 - 17)\<rfloor>, 17, floor_log10 x + 1))"

definition format_digits :: "nat \<times> nat \<times> int \<Rightarrow> string" where
  "format_digits t =
     (case t of (s, k, n) \<Rightarrow>
        let ds = decimal_digits s in
        if int k \<le> n \<and> n \<le> 21 then ds @ replicate (nat (n - int k)) CHR ''0''
        else if 0 < n \<and> n \<le> 21 then take (nat n) ds @ ''.'' @ drop (nat n) ds
        else if - 6 < n \<and> n \<le> 0 then ''0.'' @ replicate (nat (- n)) CHR ''0'' @ ds
        else
          (if k = 1 then ds else take 1 ds @ ''.'' @ drop 1 ds)
          @ ''e'' @ (if n - 1 < 0 then ''-'' else ''+'') @ decimal_digits (nat \<bar>n - 1\<bar>))"

text \<open>\<^verbatim>\<open>x.toString()\<close> on a number.\<close>

fun toString :: "jsnum \<Rightarrow> string" where
  "toString NaN = ''NaN''"
| "toString PosInf = ''Infinity''"
| "toString NegInf = ''-Infinity''"
| "toString (Fin x) =
     (if x = 0 then ''0''
      else if x < 0 then ''-'' @ format_digits (shortest_digits (- x))
      else format_digits (shortest_digits x))"


section \<open>The component\<close>

text \<open>
  \<^verbatim>\<open>src/App.tsx\<close> holds the component twice: first typed (TypeScript), then untyped
  (JavaScript). The instrument table and the three event handlers are the same text in
  both; the memoized \<^verbatim>\<open>calculations\<close> differ in the guards of the returned object.
\<close>

subsection \<open>Instrument data\<close>

record InstrumentDetails =
  name :: string
  tickValue :: jsnum
  ticksPerPoint :: jsnum

text \<open>
  The table is an object indexed by the instrument key. The literals \<^verbatim>\<open>0.5\<close>, \<^verbatim>\<open>12.5\<close>
  and \<^verbatim>\<open>1.25\<close> are binary64 values as they stand.
\<close>

definition INSTRUMENT_DATA :: "string \<rightharpoonup> InstrumentDetails" where
  "INSTRUMENT_DATA = map_of
     [(''NQ'', \<lparr>name = ''NQ'', tickValue = Fin 5, ticksPerPoint = Fin 4\<rparr>),
      (''MNQ'', \<lparr>name = ''MNQ'', tickValue = Fin (1 / 2), ticksPerPoint = Fin 4\<rparr>),
      (''ES'', \<lparr>name = ''ES'', tickValue = Fin (25 / 2), ticksPerPoint = Fin 4\<rparr>),
      (''MES'', \<lparr>name = ''MES'', tickValue = Fin (5 / 4), ticksPerPoint = Fin 4\<rparr>),
      (''GC'', \<lparr>name = ''GC'', tickValue = Fin 10, ticksPerPoint = Fin 10\<rparr>),
      (''MGC'', \<lparr>name = ''MGC'', tickValue = Fin 1, ticksPerPoint = Fin 10\<rparr>)]"

text \<open>The type \<^verbatim>\<open>InstrumentKey\<close> of the typed variant: the six keys of the table.\<close>

definition InstrumentKey :: "string list" where
  "InstrumentKey = [''NQ'', ''MNQ'', ''ES'', ''MES'', ''GC'', ''MGC'']"

text \<open>
  The table is an object literal, so \<^verbatim>\<open>INSTRUMENT_DATA[instrument]\<close> also finds the
  properties that every object inherits from \<^verbatim>\<open>Object.prototype\<close>. Each of them is an
  object or a function with no property \<^verbatim>\<open>tickValue\<close> or \<^verbatim>\<open>ticksPerPoint\<close>.
\<close>

definition Object_prototype_keys :: "string list" where
  "Object_prototype_keys =
     [''constructor'', ''__proto__'', ''hasOwnProperty'', ''isPrototypeOf'',
      ''propertyIsEnumerable'', ''toLocaleString'', ''toString'', ''valueOf'',
      ''__defineGetter__'', ''__defineSetter__'', ''__lookupGetter__'',
      ''__lookupSetter__'']"

text \<open>
  \<^verbatim>\<open>const { tickValue, ticksPerPoint } = INSTRUMENT_DATA[instrument]\<close>: the two numbers of
  a table entry. On an inherited property both are \<^verbatim>\<open>undefined\<close>; the program only
  multiplies them, and \<^verbatim>\<open>undefined\<close> in a product is \<open>NaN\<close>. On any other key the
  lookup gives \<^verbatim>\<open>undefined\<close> and destructuring it throws a \<^verbatim>\<open>TypeError\<close>: the result
  \<open>None\<close>.
\<close>

definition destructure :: "string \<Rightarrow> (jsnum \<times> jsnum) option" where
  "destructure instrument =
     (case INSTRUMENT_DATA instrument of
        Some d \<Rightarrow> Some (tickValue d, ticksPerPoint d)
      | None \<Rightarrow>
          if instrument \<in> set Object_prototype_keys then Some (NaN, NaN) else None)"

subsection \<open>Calculations\<close>

text \<open>
  The only step of the calculations that can throw is the destructuring of
  \<^verbatim>\<open>INSTRUMENT_DATA[instrument]\<close>.
\<close>

datatype error = TypeError

record sizing =
  rawLotSize :: jsnum
  floorLotSize :: jsnum
  riskForFloor :: jsnum
  ceilLotSize :: jsnum
  riskForCeil :: jsnum
  riskForOneContract :: jsnum

text \<open>The typed variant (lines 82 to 116): each of the five results is guarded by \<^verbatim>\<open>isNaN\<close>.\<close>

definition calculations :: "string \<Rightarrow> string \<Rightarrow> string \<Rightarrow> error + sizing" where
  "calculations instrument stopLossPoints riskAmount =
     (let slPoints = js_or (parseFloat stopLossPoints) (Fin 0);
          currentRiskAmount = js_or (parseFloat riskAmount) (Fin 0)
      in case destructure instrument of
           None \<Rightarrow> Inl TypeError
         | Some (tickValue', ticksPerPoint') \<Rightarrow>
             if js_le slPoints (Fin 0) \<or> js_le currentRiskAmount (Fin 0) then
               let riskPerContract =
                     (if js_lt (Fin 0) slPoints
                      then js_mul (js_mul slPoints ticksPerPoint') tickValue'
                      else Fin 0)
               in Inr \<lparr>rawLotSize = Fin 0,
                       floorLotSize = Fin 0,
                       riskForFloor = Fin 0,
                       ceilLotSize = Fin 0,
                       riskForCeil = Fin 0,
                       riskForOneContract = riskPerContract\<rparr>
             else
               let riskPerContract = js_mul (js_mul slPoints ticksPerPoint') tickValue';
                   rawLotSize = js_div currentRiskAmount riskPerContract;
                   floorLotSize = Math_floor rawLotSize;
                   riskForFloor = js_mul floorLotSize riskPerContract;
                   ceilLotSize = Math_ceil rawLotSize;
                   riskForCeil = js_mul ceilLotSize riskPerContract
               in Inr \<lparr>rawLotSize = (if isNaN rawLotSize then Fin 0 else rawLotSize),
                       floorLotSize = (if isNaN floorLotSize then Fin 0 else floorLotSize),
                       riskForFloor = (if isNaN riskForFloor then Fin 0 else riskForFloor),
                       ceilLotSize = (if isNaN ceilLotSize then Fin 0 else ceilLotSize),
                       riskForCeil = (if isNaN riskForCeil then Fin 0 else riskForCeil),
                       riskForOneContract = riskPerContract\<rparr>)"

text \<open>
  The untyped variant (lines 312 to 350): the same computation, each of the five results
  guarded by \<^verbatim>\<open>isNaN(x) || !isFinite(x)\<close>.
\<close>

definition calculations_js :: "string \<Rightarrow> string \<Rightarrow> string \<Rightarrow> error + sizing" where
  "calculations_js instrument stopLossPoints riskAmount =
     (let slPoints = js_or (parseFloat stopLossPoints) (Fin 0);
          currentRiskAmount = js_or (parseFloat riskAmount) (Fin 0)
      in case destructure instrument of
           None \<Rightarrow> Inl TypeError
         | Some (tickValue', ticksPerPoint') \<Rightarrow>
             if js_le slPoints (Fin 0) \<or> js_le currentRiskAmount (Fin 0) then
               let riskPerContract =
                     (if js_lt (Fin 0) slPoints
                      then js_mul (js_mul slPoints ticksPerPoint') tickValue'
                      else Fin 0)
               in Inr \<lparr>rawLotSize = Fin 0,
                       floorLotSize = Fin 0,
                       riskForFloor = Fin 0,
                       ceilLotSize = Fin 0,
                       riskForCeil = Fin 0,
                       riskForOneContract = riskPerContract\<rparr>
             else
               let riskPerContract = js_mul (js_mul slPoints ticksPerPoint') tickValue';
                   rawLotSize = js_div currentRiskAmount riskPerContract;
                   floorLotSize = Math_floor rawLotSize;
                   riskForFloor = js_mul floorLotSize riskPerContract;
                   ceilLotSize = Math_ceil rawLotSize;
                   riskForCeil = js_mul ceilLotSize riskPerContract
               in Inr \<lparr>rawLotSize =
                         (if isNaN rawLotSize \<or> \<not> isFinite rawLotSize then Fin 0
                          else rawLotSize),
                       floorLotSize =
                         (if isNaN floorLotSize \<or> \<not> isFinite floorLotSize then Fin 0
                          else floorLotSize),
                       riskForFloor =
                         (if isNaN riskForFloor \<or> \<not> isFinite riskForFloor then Fin 0
                          else riskForFloor),
                       ceilLotSize =
                         (if isNaN ceilLotSize \<or> \<not> isFinite ceilLotSize then Fin 0
                          else ceilLotSize),
                       riskForCeil =
                         (if isNaN riskForCeil \<or> \<not> isFinite riskForCeil then Fin 0
                          else riskForCeil),
                       riskForOneContract = riskPerContract\<rparr>)"

subsection \<open>State and event handlers\<close>

text \<open>
  The five \<^verbatim>\<open>useState\<close> cells. A handler reads the cells of the current render and
  queues its updates, which React applies together before the next render: a handler is a
  function from the state to the next state.
\<close>

record app_state =
  instrument :: string
  stopLossPoints :: string
  riskAmount :: string
  isHalfRisk :: bool
  fullRiskValue :: string

definition initial_state :: app_state where
  "initial_state =
     \<lparr>instrument = ''NQ'', stopLossPoints = ''10'', riskAmount = ''100'',
      isHalfRisk = False, fullRiskValue = ''100''\<rparr>"

definition handleRiskAmountChange :: "string \<Rightarrow> app_state \<Rightarrow> app_state" where
  "handleRiskAmountChange v s =
     (if \<not> isHalfRisk s then s\<lparr>riskAmount := v, fullRiskValue := v\<rparr>
      else s\<lparr>riskAmount := v\<rparr>)"

definition handleHalfRisk :: "app_state \<Rightarrow> app_state" where
  "handleHalfRisk s =
     (if \<not> isHalfRisk s then
        s\<lparr>fullRiskValue := riskAmount s,
          riskAmount := toString (js_div (parseFloat (riskAmount s)) (Fin 2)),
          isHalfRisk := True\<rparr>
      else s)"

definition handleFullRisk :: "app_state \<Rightarrow> app_state" where
  "handleFullRisk s =
     (if isHalfRisk s then s\<lparr>riskAmount := fullRiskValue s, isHalfRisk := False\<rparr>
      else s)"

text \<open>
  The events of the form: the two input fields, the instrument buttons, and the two
  buttons of the toggle.
\<close>

datatype event =
    RiskAmountChange string
  | StopLossChange string
  | SelectInstrument string
  | HalfRisk
  | FullRisk

fun handle :: "event \<Rightarrow> app_state \<Rightarrow> app_state" where
  "handle (RiskAmountChange v) s = handleRiskAmountChange v s"
| "handle (StopLossChange v) s = s\<lparr>stopLossPoints := v\<rparr>"
| "handle (SelectInstrument k) s = s\<lparr>instrument := k\<rparr>"
| "handle HalfRisk s = handleHalfRisk s"
| "handle FullRisk s = handleFullRisk s"

text \<open>The memoized value of a state: \<^verbatim>\<open>useMemo\<close> over the three cells it names.\<close>

definition calculations_of :: "app_state \<Rightarrow> error + sizing" where
  "calculations_of s = calculations (instrument s) (stopLossPoints s) (riskAmount s)"

definition calculations_js_of :: "app_state \<Rightarrow> error + sizing" where
  "calculations_js_of s = calculations_js (instrument s) (stopLossPoints s) (riskAmount s)"

text \<open>The number read from a field: \<^verbatim>\<open>parseFloat(text) || 0\<close>.\<close>

abbreviation parsed :: "string \<Rightarrow> jsnum" where
  "parsed t \<equiv> js_or (parseFloat t) (Fin 0)"

text \<open>The risk for one contract, and the result whose five sizes and risks are zero.\<close>

abbreviation risk_per_contract :: "InstrumentDetails \<Rightarrow> jsnum \<Rightarrow> jsnum" where
  "risk_per_contract d sl \<equiv> js_mul (js_mul sl (ticksPerPoint d)) (tickValue d)"

abbreviation zero_sizing :: "jsnum \<Rightarrow> sizing" where
  "zero_sizing rpc \<equiv>
     \<lparr>rawLotSize = Fin 0, floorLotSize = Fin 0, riskForFloor = Fin 0,
      ceilLotSize = Fin 0, riskForCeil = Fin 0, riskForOneContract = rpc\<rparr>"

text \<open>The binary64 value next to \<open>10 ^ 308\<close>, with its 53-bit significand.\<close>

definition double_1e308 :: real where
  "double_1e308 = 5010420900022432 * 2 ^ 971"

section \<open>Rounding\<close>

text \<open>
  The rounded magnitude is within half a unit in the last place of the exact one.
\<close>

lemma round_half_even_nearest: "\<bar>real_of_int (round_half_even q) - q\<bar> \<le> 1 / 2"
  unfolding round_half_even_def Let_def by (simp split: if_splits)

lemma round_magnitude_nearest:
  "\<bar>round_magnitude a - a\<bar> \<le> 2 powi ulp_exponent a / 2"
proof -
  define e where "e = ulp_exponent a"
  have pos: "0 < (2::real) powi e"
    by simp
  have "round_magnitude a - a
      = (real_of_int (round_half_even (a / 2 powi e)) - a / 2 powi e) * 2 powi e"
    using pos by (simp add: round_magnitude_def Let_def e_def algebra_simps)
  then have "\<bar>round_magnitude a - a\<bar>
      = \<bar>real_of_int (round_half_even (a / 2 powi e)) - a / 2 powi e\<bar> * 2 powi e"
    using pos by (simp add: abs_mult)
  also have "\<dots> \<le> 1 / 2 * 2 powi e"
    using round_half_even_nearest [of "a / 2 powi e"] pos
    by (intro mult_right_mono) simp_all
  finally show ?thesis
    by (simp add: e_def)
qed

section \<open>Evaluation\<close>

text \<open>
  Closed terms are evaluated by rewriting with the definitions. The recursive equations
  are instantiated to literals, so that they unfold on closed terms only.
\<close>

lemma ceiling_one_divide_numeral: "\<lceil>1 / numeral b :: real\<rceil> = - (- 1 div numeral b)"
  using ceiling_divide_eq_div [of 1 "numeral b"] by simp

lemma to_double_minus: "to_double (- x) = js_neg (to_double x)"
  by (simp add: to_double_def Let_def)

lemma to_double_positive:
  "0 < x \<Longrightarrow> to_double x =
     (if 2 ^ 1024 \<le> round_magnitude x then PosInf else Fin (round_magnitude x))"
  by (simp add: to_double_def Let_def)

lemmas to_double_literal =
  to_double_positive [of "numeral a", simplified]
  to_double_positive [of "numeral a / numeral b", simplified]
  to_double_positive [of "1 / numeral b", simplified]
  to_double_positive [of 1, simplified]
  for a b

lemmas bitlen_literal =
  compute_bitlen [of "numeral a"] compute_bitlen [of 1]
  for a

lemmas floorlog_literal =
  compute_floorlog [of "numeral b" "numeral a"] compute_floorlog [of "numeral b" 1]
  compute_floorlog [of "numeral b" 0]
  for a b

lemmas to_double_eval =
  to_double_literal to_double_minus round_magnitude_def ulp_exponent_def floor_log2_def
  round_half_even_def bitlen_literal Let_def power_int_minus ceiling_one_divide_numeral
  signed_inf_def

lemmas parseFloat_eval =
  parseFloat_def unsigned_literal_def exponent_part_def is_whitespace_def is_digit_def
  digit_value_def decimal_value_def

lemmas toString_eval =
  shortest_digits_def closer_def format_digits_def floor_log10_def floorlog_literal
  digit_candidates_def [of _ "numeral k"] digit_candidates_def [of _ 1]
  digit_candidates_def [of _ "Suc 0"]
  decimal_digits.simps [of "numeral k"] decimal_digits.simps [of 1]
  decimal_digits.simps [of 0] decimal_digits.simps [of "Suc 0"]
  for k

text \<open>
  Known values: the binary64 value of \<open>0.1\<close>, two ties that go to the even significand,
  and a negative number that is a binary64 value as it stands.
\<close>

lemma to_double_examples:
  "to_double (1 / 10) = Fin (3602879701896397 / 2 ^ 55)"
  "to_double (2 ^ 53 + 1) = Fin (2 ^ 53)"
  "to_double (2 ^ 53 + 3) = Fin (2 ^ 53 + 4)"
  "to_double (- (7 / 2)) = Fin (- (7 / 2))"
  by (simp_all add: to_double_eval)

lemma parseFloat_10: "parseFloat ''10'' = Fin 10"
  by (simp add: parseFloat_eval to_double_eval)

lemma parseFloat_100: "parseFloat ''100'' = Fin 100"
  by (simp add: parseFloat_eval to_double_eval)

lemma parseFloat_0: "parseFloat ''0'' = Fin 0"
  by (simp add: parseFloat_eval to_double_def)

lemma parseFloat_500: "parseFloat ''500'' = Fin 500"
  by (simp add: parseFloat_eval to_double_eval)

lemma parseFloat_quarter: "parseFloat ''0.25'' = Fin (1 / 4)"
  by (simp add: parseFloat_eval to_double_eval)

text \<open>
  The text \<^verbatim>\<open>1e308\<close> is read as the binary64 value next to \<open>10 ^ 308\<close>, a finite number.
  Twice this value and four times this value are beyond the largest finite binary64
  value: the product overflows to \<open>Infinity\<close>.
\<close>

lemma parseFloat_1e308: "parseFloat ''1e308'' = Fin double_1e308"
  by (simp add: double_1e308_def parseFloat_eval to_double_eval)

lemma double_1e308_positive: "0 < double_1e308"
  by (simp add: double_1e308_def)

lemma double_1e308_overflow:
  "to_double (double_1e308 * 4) = PosInf" "to_double (double_1e308 * 2) = PosInf"
  by (simp_all add: double_1e308_def to_double_eval)

lemma parseFloat_empty: "parseFloat [] = NaN"
  by (simp add: parseFloat_def)

lemma parseFloat_abc: "parseFloat ''abc'' = NaN"
  by (simp add: parseFloat_eval)

lemma parseFloat_NaN: "parseFloat ''NaN'' = NaN"
  by (simp add: parseFloat_eval)

lemma parseFloat_Infinity: "parseFloat ''Infinity'' = PosInf"
  by (simp add: parseFloat_eval)

lemma half_of_100: "toString (js_div (Fin 100) (Fin 2)) = ''50''"
  by (simp add: toString_eval to_double_eval)

lemma to_double_1: "to_double 1 = Fin 1"
  by (simp add: to_double_eval)

lemma INSTRUMENT_DATA_NQ:
  "INSTRUMENT_DATA ''NQ'' = Some \<lparr>name = ''NQ'', tickValue = Fin 5, ticksPerPoint = Fin 4\<rparr>"
  by (simp add: INSTRUMENT_DATA_def)

lemma INSTRUMENT_DATA_MNQ:
  "INSTRUMENT_DATA ''MNQ'' =
     Some \<lparr>name = ''MNQ'', tickValue = Fin (1 / 2), ticksPerPoint = Fin 4\<rparr>"
  by (simp add: INSTRUMENT_DATA_def)

lemma dom_INSTRUMENT_DATA: "dom INSTRUMENT_DATA = set InstrumentKey"
  by (auto simp: INSTRUMENT_DATA_def InstrumentKey_def split: if_splits)

section \<open>Calculations\<close>

subsection \<open>Numbers read from the fields\<close>

lemma parsed_not_NaN: "parsed t \<noteq> NaN"
  by (cases "parseFloat t") (simp_all add: js_or_def)

lemma not_le_zero_iff: "a \<noteq> NaN \<Longrightarrow> (\<not> js_le a (Fin 0)) = js_lt (Fin 0) a"
  by (cases a) auto

lemma js_mul_finiteD: "isFinite (js_mul a b) \<Longrightarrow> isFinite a \<and> isFinite b"
  by (cases a; cases b) (auto simp: signed_inf_def split: if_splits)

lemma isFinite_floor_ceil:
  "isFinite (Math_floor a) = isFinite a" "isFinite (Math_ceil a) = isFinite a"
  by (cases a; simp)+

lemma isFinite_not_NaN: "isFinite a \<Longrightarrow> \<not> isNaN a"
  by (cases a) simp_all

subsection \<open>The degenerate case\<close>

text \<open>
  C1. For an instrument of the table, when the stop loss read from its field is \<open>\<le> 0\<close> or
  the risk amount read from its field is \<open>\<le> 0\<close>, both variants return zero for the five
  sizes and risks. The risk for one contract is the product of the stop loss, the ticks per
  point and the tick value when the stop loss is \<open>> 0\<close>, and zero otherwise; this holds for
  the degenerate result and for every other result.
\<close>

theorem degenerate_sizing:
  assumes "INSTRUMENT_DATA k = Some d"
  shows "(js_le (parsed sl) (Fin 0) \<or> js_le (parsed r) (Fin 0) \<longrightarrow>
            calculations k sl r =
              Inr (zero_sizing (if js_lt (Fin 0) (parsed sl)
                                then risk_per_contract d (parsed sl) else Fin 0))
            \<and> calculations_js k sl r =
              Inr (zero_sizing (if js_lt (Fin 0) (parsed sl)
                                then risk_per_contract d (parsed sl) else Fin 0)))
    \<and> map_sum id riskForOneContract (calculations k sl r) =
          Inr (if js_lt (Fin 0) (parsed sl) then risk_per_contract d (parsed sl) else Fin 0)
    \<and> map_sum id riskForOneContract (calculations_js k sl r) =
          Inr (if js_lt (Fin 0) (parsed sl) then risk_per_contract d (parsed sl) else Fin 0)"
proof -
  have pos: "\<not> js_le (parsed sl) (Fin 0) \<Longrightarrow> js_lt (Fin 0) (parsed sl)"
    using not_le_zero_iff [OF parsed_not_NaN, of sl] by simp
  show ?thesis
    using assms pos by (simp add: calculations_def calculations_js_def destructure_def Let_def)
qed

theorem degenerate_sizing_witness:
  "INSTRUMENT_DATA ''NQ'' =
     Some \<lparr>name = ''NQ'', tickValue = Fin 5, ticksPerPoint = Fin 4\<rparr>
   \<and> js_le (parsed ''0'') (Fin 0)
   \<and> calculations ''NQ'' ''10'' ''0'' = Inr (zero_sizing (Fin 200))
   \<and> calculations_js ''NQ'' ''10'' ''0'' = Inr (zero_sizing (Fin 200))
   \<and> calculations ''NQ'' ''0'' ''100'' = Inr (zero_sizing (Fin 0))
   \<and> calculations_js ''NQ'' ''0'' ''100'' = Inr (zero_sizing (Fin 0))"
  using degenerate_sizing [OF INSTRUMENT_DATA_NQ, of "''10''" "''0''"]
    degenerate_sizing [OF INSTRUMENT_DATA_NQ, of "''0''" "''100''"]
  by (simp add: INSTRUMENT_DATA_NQ parseFloat_0 parseFloat_10 parseFloat_100 js_or_def
      to_double_eval)

subsection \<open>Totality\<close>

text \<open>
  C4. For each of the six instrument keys and any two texts, both variants return a result
  and do not throw. The result is a function of the instrument key and the two texts only:
  two states that agree on these three cells have the same memoized result, whatever
  their toggle cells hold.
\<close>

theorem calculations_total:
  assumes "k \<in> set InstrumentKey"
  shows "(\<exists>res. calculations k sl r = Inr res)
    \<and> (\<exists>res. calculations_js k sl r = Inr res)
    \<and> (instrument s = instrument s' \<and> stopLossPoints s = stopLossPoints s'
          \<and> riskAmount s = riskAmount s' \<longrightarrow>
        calculations_of s = calculations_of s' \<and> calculations_js_of s = calculations_js_of s')"
proof -
  from assms obtain d where "INSTRUMENT_DATA k = Some d"
    using dom_INSTRUMENT_DATA by blast
  then show ?thesis
    by (simp add: calculations_def calculations_js_def destructure_def calculations_of_def
        calculations_js_of_def Let_def)
qed

theorem calculations_total_witness:
  "''NQ'' \<in> set InstrumentKey
   \<and> (\<exists>res. calculations ''NQ'' ''abc'' [] = Inr res)
   \<and> (\<exists>res. calculations_js ''NQ'' ''abc'' [] = Inr res)
   \<and> calculations_of initial_state = calculations_of (handleFullRisk (handleHalfRisk initial_state))
   \<and> calculations_js_of initial_state
       = calculations_js_of (handleFullRisk (handleHalfRisk initial_state))"
proof -
  have key: "''NQ'' \<in> set InstrumentKey"
    by (simp add: InstrumentKey_def)
  from calculations_total [OF key, of "''abc''" "[]" initial_state
      "handleFullRisk (handleHalfRisk initial_state)"] key
  show ?thesis
    by (simp add: initial_state_def handleHalfRisk_def handleFullRisk_def)
qed

text \<open>
  Outside the six keys: a property inherited from \<^verbatim>\<open>Object.prototype\<close> gives a result
  whose risk for one contract is \<open>NaN\<close> or \<open>0\<close>, and any other key throws.
\<close>

lemma INSTRUMENT_DATA_inherited:
  "k \<in> set Object_prototype_keys \<Longrightarrow> INSTRUMENT_DATA k = None"
  by (auto simp: Object_prototype_keys_def INSTRUMENT_DATA_def)

lemma calculations_inherited_key:
  assumes "k \<in> set Object_prototype_keys"
  shows "map_sum id riskForOneContract (calculations k sl r) =
           Inr (if js_lt (Fin 0) (parsed sl) then NaN else Fin 0)
    \<and> map_sum id riskForOneContract (calculations_js k sl r) =
           Inr (if js_lt (Fin 0) (parsed sl) then NaN else Fin 0)"
proof -
  have pos: "\<not> js_le (parsed sl) (Fin 0) \<Longrightarrow> js_lt (Fin 0) (parsed sl)"
    using not_le_zero_iff [OF parsed_not_NaN, of sl] by simp
  have mul: "js_mul (js_mul (parsed sl) NaN) NaN = NaN"
    by (cases "parsed sl") simp_all
  show ?thesis
    using assms INSTRUMENT_DATA_inherited [OF assms] pos mul
    by (simp add: calculations_def calculations_js_def destructure_def Let_def
        del: js_mul.simps)
qed

lemma calculations_unknown_key:
  assumes "k \<notin> set InstrumentKey" and "k \<notin> set Object_prototype_keys"
  shows "calculations k sl r = Inl TypeError \<and> calculations_js k sl r = Inl TypeError"
proof -
  from assms(1) have "INSTRUMENT_DATA k = None"
    using dom_INSTRUMENT_DATA by blast
  with assms(2) show ?thesis
    by (simp add: calculations_def calculations_js_def destructure_def Let_def)
qed

subsection \<open>The sizing formulas\<close>

text \<open>
  The claim C2 as stated fails. The stop loss \<^verbatim>\<open>1e308\<close> is a finite number greater than
  zero, and so is the risk amount \<^verbatim>\<open>100\<close>. The risk for one contract overflows to
  \<open>Infinity\<close>, the raw and the floored lot size are \<open>0\<close>, and the product
  \<open>0 * Infinity\<close> is \<open>NaN\<close>, which the guard replaces by \<open>0\<close>: the returned risk for the
  floored size is not the floored size times the risk for one contract.
\<close>

theorem sizing_formulas_counterexample:
  "isFinite (parsed ''1e308'')
   \<and> js_lt (Fin 0) (parsed ''1e308'')
   \<and> js_lt (Fin 0) (parsed ''100'')
   \<and> calculations ''NQ'' ''1e308'' ''100'' = Inr (zero_sizing PosInf)
   \<and> calculations_js ''NQ'' ''1e308'' ''100'' = Inr (zero_sizing PosInf)
   \<and> riskForFloor (zero_sizing PosInf)
       \<noteq> js_mul (floorLotSize (zero_sizing PosInf)) (riskForOneContract (zero_sizing PosInf))"
  using double_1e308_positive
  by (simp add: calculations_def calculations_js_def destructure_def INSTRUMENT_DATA_NQ parseFloat_1e308
      parseFloat_100 js_or_def double_1e308_overflow signed_inf_def Let_def
      split del: if_split)

text \<open>
  C2, amended. For an instrument of the table, a stop loss \<open>> 0\<close> and a risk amount \<open>> 0\<close>,
  let \<open>rpc\<close> be the risk for one contract and \<open>raw\<close> the risk amount over \<open>rpc\<close>. Whenever
  the products of the floor and of the ceiling of \<open>raw\<close> with \<open>rpc\<close> are finite numbers,
  both variants return \<open>raw\<close>, its floor, its ceiling and exactly these two products.
\<close>

theorem sizing_formulas_when_finite:
  assumes "INSTRUMENT_DATA k = Some d"
    and "js_lt (Fin 0) (parsed sl)" and "js_lt (Fin 0) (parsed r)"
    and "rpc = risk_per_contract d (parsed sl)"
    and "raw = js_div (parsed r) rpc"
    and "isFinite (js_mul (Math_floor raw) rpc)"
    and "isFinite (js_mul (Math_ceil raw) rpc)"
  shows "calculations k sl r =
           Inr \<lparr>rawLotSize = raw, floorLotSize = Math_floor raw,
                riskForFloor = js_mul (Math_floor raw) rpc,
                ceilLotSize = Math_ceil raw,
                riskForCeil = js_mul (Math_ceil raw) rpc,
                riskForOneContract = rpc\<rparr>
    \<and> calculations_js k sl r =
           Inr \<lparr>rawLotSize = raw, floorLotSize = Math_floor raw,
                riskForFloor = js_mul (Math_floor raw) rpc,
                ceilLotSize = Math_ceil raw,
                riskForCeil = js_mul (Math_ceil raw) rpc,
                riskForOneContract = rpc\<rparr>"
proof -
  have sl: "\<not> js_le (parsed sl) (Fin 0)"
    using assms(2) not_le_zero_iff [OF parsed_not_NaN, of sl] by simp
  have r: "\<not> js_le (parsed r) (Fin 0)"
    using assms(3) not_le_zero_iff [OF parsed_not_NaN, of r] by simp
  from assms(7) have "isFinite (Math_ceil raw)"
    by (rule js_mul_finiteD [THEN conjunct1])
  then have raw: "isFinite raw"
    by (simp add: isFinite_floor_ceil)
  then have fc: "isFinite (Math_floor raw)" "isFinite (Math_ceil raw)"
    by (simp_all add: isFinite_floor_ceil)
  note fin = raw fc assms(6,7)
  note nan = fin [THEN isFinite_not_NaN]
  show ?thesis
    using assms(1) sl r fin nan
    unfolding assms(4,5)
    by (simp add: calculations_def calculations_js_def destructure_def Let_def
        del: js_mul.simps js_div.simps)
qed

lemma sizing_500_arith:
  "js_mul (Fin 10) (Fin 4) = Fin 40" "js_mul (Fin 40) (Fin 5) = Fin 200"
  "js_div (Fin 500) (Fin 200) = Fin (5 / 2)"
  "js_mul (Fin 2) (Fin 200) = Fin 400" "js_mul (Fin 3) (Fin 200) = Fin 600"
  by (simp_all add: to_double_eval)

theorem sizing_formulas_when_finite_witness:
  "INSTRUMENT_DATA ''NQ'' =
     Some \<lparr>name = ''NQ'', tickValue = Fin 5, ticksPerPoint = Fin 4\<rparr>
   \<and> js_lt (Fin 0) (parsed ''10'') \<and> js_lt (Fin 0) (parsed ''500'')
   \<and> isFinite (js_mul (Math_floor (Fin (5 / 2))) (Fin 200))
   \<and> isFinite (js_mul (Math_ceil (Fin (5 / 2))) (Fin 200))
   \<and> calculations ''NQ'' ''10'' ''500'' =
       Inr \<lparr>rawLotSize = Fin (5 / 2), floorLotSize = Fin 2, riskForFloor = Fin 400,
            ceilLotSize = Fin 3, riskForCeil = Fin 600, riskForOneContract = Fin 200\<rparr>
   \<and> calculations_js ''NQ'' ''10'' ''500'' =
       Inr \<lparr>rawLotSize = Fin (5 / 2), floorLotSize = Fin 2, riskForFloor = Fin 400,
            ceilLotSize = Fin 3, riskForCeil = Fin 600, riskForOneContract = Fin 200\<rparr>"
proof -
  have sl: "parsed ''10'' = Fin 10" and r: "parsed ''500'' = Fin 500"
    by (simp_all add: parseFloat_10 parseFloat_500 js_or_def)
  have rpc: "Fin 200 = risk_per_contract
      \<lparr>name = ''NQ'', tickValue = Fin 5, ticksPerPoint = Fin 4\<rparr> (parsed ''10'')"
    unfolding sl by (simp add: sizing_500_arith del: js_mul.simps)
  have raw: "Fin (5 / 2) = js_div (parsed ''500'') (Fin 200)"
    unfolding r by (simp add: sizing_500_arith del: js_div.simps)
  have lo: "isFinite (js_mul (Math_floor (Fin (5 / 2))) (Fin 200))"
    and hi: "isFinite (js_mul (Math_ceil (Fin (5 / 2))) (Fin 200))"
    by (simp_all add: sizing_500_arith del: js_mul.simps)
  have pos: "js_lt (Fin 0) (parsed ''10'')" "js_lt (Fin 0) (parsed ''500'')"
    unfolding sl r by simp_all
  from sizing_formulas_when_finite [OF INSTRUMENT_DATA_NQ pos rpc raw lo hi]
    INSTRUMENT_DATA_NQ pos lo hi
  show ?thesis
    by (simp add: sizing_500_arith del: js_mul.simps)
qed

subsection \<open>Results that are not finite\<close>

text \<open>
  The stop loss \<^verbatim>\<open>0.25\<close> on \<^verbatim>\<open>MNQ\<close> gives the risk \<open>0.5\<close> for one contract; the risk
  amount \<^verbatim>\<open>1e308\<close> over \<open>0.5\<close> overflows to \<open>Infinity\<close>. The typed variant returns the
  infinities, the untyped variant replaces them by \<open>0\<close>.
\<close>

lemma calculations_at_overflow:
  "calculations ''MNQ'' ''0.25'' ''1e308'' =
     Inr \<lparr>rawLotSize = PosInf, floorLotSize = PosInf, riskForFloor = PosInf,
          ceilLotSize = PosInf, riskForCeil = PosInf, riskForOneContract = Fin (1 / 2)\<rparr>"
  using double_1e308_positive
  by (simp add: calculations_def destructure_def INSTRUMENT_DATA_MNQ parseFloat_1e308 parseFloat_quarter
      js_or_def double_1e308_overflow to_double_eval split del: if_split)

lemma calculations_js_at_overflow:
  "calculations_js ''MNQ'' ''0.25'' ''1e308'' = Inr (zero_sizing (Fin (1 / 2)))"
  using double_1e308_positive
  by (simp add: calculations_js_def destructure_def INSTRUMENT_DATA_MNQ parseFloat_1e308 parseFloat_quarter
      js_or_def double_1e308_overflow to_double_eval split del: if_split)

lemma positive_at_overflow:
  "js_lt (Fin 0) (parsed ''0.25'')" "js_lt (Fin 0) (parsed ''1e308'')"
  using double_1e308_positive
  by (simp_all add: parseFloat_1e308 parseFloat_quarter js_or_def)

text \<open>
  C3. On the texts \<^verbatim>\<open>0.25\<close> and \<^verbatim>\<open>1e308\<close> for \<^verbatim>\<open>MNQ\<close> none of the five sizes and risks
  returned by the typed variant is a finite number.
\<close>

theorem calculations_returns_infinity:
  "map_sum id
     (\<lambda>res. map isFinite [rawLotSize res, floorLotSize res, riskForFloor res,
                           ceilLotSize res, riskForCeil res])
     (calculations ''MNQ'' ''0.25'' ''1e308'')
   = Inr [False, False, False, False, False]"
  by (simp add: calculations_at_overflow)

text \<open>
  The untyped variant returns five finite numbers on every input, and the typed variant
  never returns \<open>NaN\<close>.
\<close>

lemma calculations_js_finite:
  assumes "INSTRUMENT_DATA k = Some d"
  shows "\<exists>res. calculations_js k sl r = Inr res
    \<and> isFinite (rawLotSize res) \<and> isFinite (floorLotSize res)
    \<and> isFinite (riskForFloor res) \<and> isFinite (ceilLotSize res)
    \<and> isFinite (riskForCeil res)"
  using assms by (simp add: calculations_js_def destructure_def Let_def)

lemma calculations_not_NaN:
  assumes "INSTRUMENT_DATA k = Some d"
  shows "\<exists>res. calculations k sl r = Inr res
    \<and> \<not> isNaN (rawLotSize res) \<and> \<not> isNaN (floorLotSize res)
    \<and> \<not> isNaN (riskForFloor res) \<and> \<not> isNaN (ceilLotSize res)
    \<and> \<not> isNaN (riskForCeil res)"
  using assms by (simp add: calculations_def destructure_def Let_def)

subsection \<open>The two variants\<close>

text \<open>
  C5. On the texts \<^verbatim>\<open>0.25\<close> and \<^verbatim>\<open>1e308\<close> for \<^verbatim>\<open>MNQ\<close> the typed and the untyped
  variant return different results.
\<close>

theorem variants_differ_at_overflow:
  "calculations ''MNQ'' ''0.25'' ''1e308'' \<noteq> calculations_js ''MNQ'' ''0.25'' ''1e308''"
  by (simp add: calculations_at_overflow calculations_js_at_overflow)

text \<open>
  The two variants differ in this way only: the untyped variant returns what the typed
  variant returns, with each infinity among the five sizes and risks replaced by \<open>0\<close>.
\<close>

lemma guard_js_eq:
  "(if isNaN a \<or> \<not> isFinite a then Fin 0 else a)
     = (if isFinite (if isNaN a then Fin 0 else a) then (if isNaN a then Fin 0 else a)
        else Fin 0)"
  by (cases a) simp_all

lemma variants_differ_only_at_infinity:
  "calculations_js k sl r =
     map_sum id
       (\<lambda>res. \<lparr>rawLotSize = (if isFinite (rawLotSize res) then rawLotSize res else Fin 0),
               floorLotSize = (if isFinite (floorLotSize res) then floorLotSize res else Fin 0),
               riskForFloor = (if isFinite (riskForFloor res) then riskForFloor res else Fin 0),
               ceilLotSize = (if isFinite (ceilLotSize res) then ceilLotSize res else Fin 0),
               riskForCeil = (if isFinite (riskForCeil res) then riskForCeil res else Fin 0),
               riskForOneContract = riskForOneContract res\<rparr>)
       (calculations k sl r)"
proof (cases "destructure k")
  case None
  then show ?thesis
    by (simp add: calculations_def calculations_js_def Let_def)
next
  case (Some p)
  then obtain tv tpp where fields: "destructure k = Some (tv, tpp)"
    by (cases p) simp
  show ?thesis
  proof (cases "js_le (parsed sl) (Fin 0) \<or> js_le (parsed r) (Fin 0)")
    case True
    with fields show ?thesis
      by (simp add: calculations_def calculations_js_def Let_def)
  next
    case False
    with fields show ?thesis
      unfolding calculations_def calculations_js_def Let_def guard_js_eq
      by simp
  qed
qed

subsection \<open>Floor and ceiling\<close>

text \<open>
  C6. On the texts \<^verbatim>\<open>0.25\<close> and \<^verbatim>\<open>1e308\<close> for \<^verbatim>\<open>MNQ\<close>, both read as numbers \<open>> 0\<close>,
  the ceiled minus the floored lot size of the typed variant is \<open>NaN\<close>, neither \<open>0\<close> nor
  \<open>1\<close>.
\<close>

theorem ceil_minus_floor_at_overflow:
  "js_lt (Fin 0) (parsed ''0.25'')
   \<and> js_lt (Fin 0) (parsed ''1e308'')
   \<and> map_sum id (\<lambda>res. js_sub (ceilLotSize res) (floorLotSize res))
         (calculations ''MNQ'' ''0.25'' ''1e308'') = Inr NaN"
  by (simp add: calculations_at_overflow positive_at_overflow)

text \<open>
  In the untyped variant the floored lot size is at most the raw lot size, which is at
  most the ceiled lot size, and the ceiled minus the floored lot size is \<open>0\<close> or \<open>1\<close>, on
  every input.
\<close>

lemma ceiling_minus_floor:
  "real_of_int \<lceil>x\<rceil> - real_of_int \<lfloor>x\<rfloor> = 0
   \<or> real_of_int \<lceil>x\<rceil> - real_of_int \<lfloor>x\<rfloor> = 1"
  by (simp add: ceiling_altdef)

lemma floor_ceil_bracket:
  assumes "isFinite a"
  shows "js_le (Math_floor a) a \<and> js_le a (Math_ceil a)
     \<and> (js_sub (Math_ceil a) (Math_floor a) = Fin 0
        \<or> js_sub (Math_ceil a) (Math_floor a) = Fin 1)"
proof -
  from assms obtain x where a: "a = Fin x"
    by (cases a) simp_all
  have sub: "js_sub (Math_ceil a) (Math_floor a)
      = to_double (real_of_int \<lceil>x\<rceil> - real_of_int \<lfloor>x\<rfloor>)"
    by (simp add: a)
  have zero: "to_double 0 = Fin 0"
    by (simp add: to_double_def)
  from ceiling_minus_floor [of x]
  have "js_sub (Math_ceil a) (Math_floor a) = Fin 0
      \<or> js_sub (Math_ceil a) (Math_floor a) = Fin 1"
    unfolding sub by (elim disjE) (simp_all only: zero to_double_1, simp_all)
  moreover have "js_le (Math_floor a) a \<and> js_le a (Math_ceil a)"
    by (simp add: a)
  ultimately show ?thesis
    by blast
qed

lemma calculations_js_bracket:
  assumes "INSTRUMENT_DATA k = Some d"
  shows "\<exists>res. calculations_js k sl r = Inr res
    \<and> js_le (floorLotSize res) (rawLotSize res)
    \<and> js_le (rawLotSize res) (ceilLotSize res)
    \<and> (js_sub (ceilLotSize res) (floorLotSize res) = Fin 0
       \<or> js_sub (ceilLotSize res) (floorLotSize res) = Fin 1)"
proof (cases "js_le (parsed sl) (Fin 0) \<or> js_le (parsed r) (Fin 0)")
  case True
  with assms show ?thesis
    by (simp add: calculations_js_def destructure_def Let_def to_double_def)
next
  case False
  define raw where "raw = js_div (parsed r) (risk_per_contract d (parsed sl))"
  show ?thesis
  proof (cases "isFinite raw")
    case True
    with floor_ceil_bracket [OF True] assms False show ?thesis
      by (simp add: calculations_js_def destructure_def Let_def raw_def isFinite_floor_ceil isFinite_not_NaN
          del: js_mul.simps js_div.simps js_sub.simps)
  next
    case inf: False
    with assms \<open>\<not> (js_le (parsed sl) (Fin 0) \<or> js_le (parsed r) (Fin 0))\<close> show ?thesis
      by (simp add: calculations_js_def destructure_def Let_def raw_def isFinite_floor_ceil to_double_def
          del: js_mul.simps js_div.simps)
  qed
qed

text \<open>The typed variant does the same whenever the quotient of the two risks is finite.\<close>

lemma calculations_bracket_when_finite:
  assumes "INSTRUMENT_DATA k = Some d"
    and "isFinite (js_div (parsed r) (risk_per_contract d (parsed sl)))"
  shows "\<exists>res. calculations k sl r = Inr res
    \<and> js_le (floorLotSize res) (rawLotSize res)
    \<and> js_le (rawLotSize res) (ceilLotSize res)
    \<and> (js_sub (ceilLotSize res) (floorLotSize res) = Fin 0
       \<or> js_sub (ceilLotSize res) (floorLotSize res) = Fin 1)"
proof (cases "js_le (parsed sl) (Fin 0) \<or> js_le (parsed r) (Fin 0)")
  case True
  with assms(1) show ?thesis
    by (simp add: calculations_def destructure_def Let_def to_double_def)
next
  case False
  with floor_ceil_bracket [OF assms(2)] assms show ?thesis
    by (simp add: calculations_def destructure_def Let_def isFinite_floor_ceil isFinite_not_NaN
        del: js_mul.simps js_div.simps js_sub.simps)
qed

section \<open>The risk toggle\<close>

text \<open>
  C9. The restore trigger in state Full, and the halve trigger in state Half, leave the
  whole state as it is: the risk amount, the saved full risk and the flag.
\<close>

theorem toggle_wrong_state_noop:
  "(\<not> isHalfRisk s \<longrightarrow> handleFullRisk s = s) \<and> (isHalfRisk s \<longrightarrow> handleHalfRisk s = s)"
  by (simp add: handleFullRisk_def handleHalfRisk_def)

theorem toggle_wrong_state_noop_witness:
  "\<not> isHalfRisk initial_state
   \<and> handleFullRisk initial_state = initial_state
   \<and> isHalfRisk (handleHalfRisk initial_state)
   \<and> handleHalfRisk (handleHalfRisk initial_state) = handleHalfRisk initial_state"
  using toggle_wrong_state_noop [of initial_state]
    toggle_wrong_state_noop [of "handleHalfRisk initial_state"]
  by (simp add: initial_state_def handleHalfRisk_def)

text \<open>
  C8. No event overwrites the saved full risk while the half risk is active; in
  particular an edit of the risk field in state Half leaves it unchanged. In state Full an
  edit of the risk field sets both the risk amount and the saved full risk to the new text.
\<close>

theorem fullRiskValue_overwritten_only_when_full:
  "(isHalfRisk s \<longrightarrow> fullRiskValue (handle e s) = fullRiskValue s)
   \<and> (isHalfRisk s \<longrightarrow> fullRiskValue (handleRiskAmountChange v s) = fullRiskValue s)
   \<and> (\<not> isHalfRisk s \<longrightarrow>
        fullRiskValue (handleRiskAmountChange v s) = v
        \<and> riskAmount (handleRiskAmountChange v s) = v)"
  by (cases e)
    (simp_all add: handleRiskAmountChange_def handleHalfRisk_def handleFullRisk_def)

theorem fullRiskValue_overwritten_only_when_full_witness:
  "isHalfRisk (handleHalfRisk initial_state)
   \<and> fullRiskValue (handle (RiskAmountChange ''70'') (handleHalfRisk initial_state)) = ''100''
   \<and> fullRiskValue (handleRiskAmountChange ''70'' (handleHalfRisk initial_state)) = ''100''
   \<and> \<not> isHalfRisk initial_state
   \<and> fullRiskValue (handleRiskAmountChange ''70'' initial_state) = ''70''"
  using fullRiskValue_overwritten_only_when_full
      [of "handleHalfRisk initial_state" "RiskAmountChange ''70''" "''70''"]
    fullRiskValue_overwritten_only_when_full
      [of initial_state "RiskAmountChange ''70''" "''70''"]
  by (simp add: initial_state_def handleHalfRisk_def)

text \<open>
  C7. From state Full, halving and then restoring gives back the risk amount and state
  Full. Halving the risk amount \<^verbatim>\<open>"100"\<close> gives \<^verbatim>\<open>"50"\<close> and saves \<^verbatim>\<open>"100"\<close>.
\<close>

theorem halve_restore_roundtrip:
  assumes "\<not> isHalfRisk s"
  shows "riskAmount (handleFullRisk (handleHalfRisk s)) = riskAmount s
    \<and> \<not> isHalfRisk (handleFullRisk (handleHalfRisk s))
    \<and> isHalfRisk (handleHalfRisk s)
    \<and> (riskAmount s = ''100'' \<longrightarrow>
          riskAmount (handleHalfRisk s) = ''50''
          \<and> fullRiskValue (handleHalfRisk s) = ''100''
          \<and> riskAmount (handleFullRisk (handleHalfRisk s)) = ''100'')"
  using assms
  by (simp add: handleHalfRisk_def handleFullRisk_def parseFloat_100 half_of_100
      del: js_div.simps)

theorem halve_restore_roundtrip_witness:
  "\<not> isHalfRisk initial_state
   \<and> riskAmount initial_state = ''100''
   \<and> riskAmount (handleHalfRisk initial_state) = ''50''
   \<and> fullRiskValue (handleHalfRisk initial_state) = ''100''
   \<and> isHalfRisk (handleHalfRisk initial_state)
   \<and> riskAmount (handleFullRisk (handleHalfRisk initial_state)) = ''100''
   \<and> \<not> isHalfRisk (handleFullRisk (handleHalfRisk initial_state))"
proof -
  have full: "\<not> isHalfRisk initial_state" and r: "riskAmount initial_state = ''100''"
    by (simp_all add: initial_state_def)
  from halve_restore_roundtrip [OF full] full r show ?thesis
    by simp
qed

text \<open>
  C10. From state Full, halving sets the risk amount to the string of \<^verbatim>\<open>parseFloat\<close> of
  the old text over two, with no fallback to zero, whatever the old text is; the saved full
  risk is the old text, and restoring brings it back. When \<^verbatim>\<open>parseFloat\<close> does not read
  the old text (the empty text is one), the risk amount becomes the text \<^verbatim>\<open>"NaN"\<close>, which
  the calculations read as \<open>0\<close>.
\<close>

theorem halve_unparsable_gives_NaN:
  assumes "\<not> isHalfRisk s"
  shows "riskAmount (handleHalfRisk s)
      = toString (js_div (parseFloat (riskAmount s)) (Fin 2))
    \<and> fullRiskValue (handleHalfRisk s) = riskAmount s
    \<and> riskAmount (handleFullRisk (handleHalfRisk s)) = riskAmount s
    \<and> (parseFloat (riskAmount s) = NaN \<longrightarrow>
          riskAmount (handleHalfRisk s) = ''NaN''
          \<and> parsed (riskAmount (handleHalfRisk s)) = Fin 0)
    \<and> parseFloat [] = NaN"
proof -
  have nan: "toString (js_div NaN (Fin 2)) = ''NaN''"
    by simp
  show ?thesis
    using assms
    by (simp add: handleHalfRisk_def handleFullRisk_def parseFloat_NaN parseFloat_empty
        js_or_def nan del: js_div.simps)
qed

text \<open>
  The witness takes the theorem at three states reached from the initial one: after the
  risk field is emptied, after it is set to a text that is no number, and at the initial
  state itself, where the text \<^verbatim>\<open>"100"\<close> is halved to \<^verbatim>\<open>"50"\<close> and not to \<^verbatim>\<open>"NaN"\<close>.
\<close>

theorem halve_unparsable_gives_NaN_witness:
  "\<not> isHalfRisk (handleRiskAmountChange [] initial_state)
   \<and> parseFloat (riskAmount (handleRiskAmountChange [] initial_state)) = NaN
   \<and> riskAmount (handleHalfRisk (handleRiskAmountChange [] initial_state)) = ''NaN''
   \<and> fullRiskValue (handleHalfRisk (handleRiskAmountChange [] initial_state)) = []
   \<and> parsed (riskAmount (handleHalfRisk (handleRiskAmountChange [] initial_state))) = Fin 0
   \<and> riskAmount (handleFullRisk (handleHalfRisk (handleRiskAmountChange [] initial_state)))
       = []
   \<and> parseFloat (riskAmount (handleRiskAmountChange ''abc'' initial_state)) = NaN
   \<and> riskAmount (handleHalfRisk (handleRiskAmountChange ''abc'' initial_state)) = ''NaN''
   \<and> fullRiskValue (handleHalfRisk (handleRiskAmountChange ''abc'' initial_state)) = ''abc''
   \<and> riskAmount (handleFullRisk (handleHalfRisk (handleRiskAmountChange ''abc'' initial_state)))
       = ''abc''
   \<and> \<not> isHalfRisk initial_state
   \<and> riskAmount (handleHalfRisk initial_state) = ''50''
   \<and> fullRiskValue (handleHalfRisk initial_state) = ''100''"
proof -
  let ?empty = "handleRiskAmountChange [] initial_state"
  let ?abc = "handleRiskAmountChange ''abc'' initial_state"
  have full: "\<not> isHalfRisk ?empty" "\<not> isHalfRisk ?abc" "\<not> isHalfRisk initial_state"
    by (simp_all add: initial_state_def handleRiskAmountChange_def)
  have texts: "riskAmount ?empty = []" "riskAmount ?abc = ''abc''"
      "riskAmount initial_state = ''100''"
    by (simp_all add: initial_state_def handleRiskAmountChange_def)
  have unread: "parseFloat (riskAmount ?empty) = NaN" "parseFloat (riskAmount ?abc) = NaN"
    unfolding texts by (simp_all add: parseFloat_empty parseFloat_abc)
  note emptied = halve_unparsable_gives_NaN [OF full(1)]
  note letters = halve_unparsable_gives_NaN [OF full(2)]
  note hundred = halve_unparsable_gives_NaN [OF full(3)]
  have e1: "riskAmount (handleHalfRisk ?empty) = ''NaN''"
      "parsed (riskAmount (handleHalfRisk ?empty)) = Fin 0"
    using emptied unread(1) by blast+
  have e2: "fullRiskValue (handleHalfRisk ?empty) = []"
      "riskAmount (handleFullRisk (handleHalfRisk ?empty)) = []"
    using emptied unfolding texts by blast+
  have a1: "riskAmount (handleHalfRisk ?abc) = ''NaN''"
    using letters unread(2) by blast
  have a2: "fullRiskValue (handleHalfRisk ?abc) = ''abc''"
      "riskAmount (handleFullRisk (handleHalfRisk ?abc)) = ''abc''"
    using letters unfolding texts by blast+
  have h: "riskAmount (handleHalfRisk initial_state) = ''50''"
      "fullRiskValue (handleHalfRisk initial_state) = ''100''"
    using hundred unfolding texts parseFloat_100 half_of_100 by blast+
  from full unread e1 e2 a1 a2 h show ?thesis
    by blast
qed

end
